theory Spec2Isabelle
  imports Main "HOL-Library.Multiset" "HOL-Library.Sublist"
    "HOL-Library.List_Lexorder" "HOL-Library.Char_ord"
begin

section \<open>Data model\<close>

text \<open>
  The interface \<open>NewStudent\<close> of both modules.  The union types of \<open>strand\<close> and
  \<open>enrollment_status\<close> are compile-time only: at run time the fields hold whatever string
  the Record Source returned, and the code itself tests them, so they are strings here.
  \<open>gradeLevel\<close> is an integral JavaScript number.
\<close>

record NewStudent =
  lname :: string
  fname :: string
  strand :: string
  gradeLevel :: int
  semester :: string
  enrollment_status :: string

text \<open>
  \<open>Partial<NewStudent>\<close> restricted to the two columns that the counting query selects
  (\<open>select('strand, enrollment_status')\<close>); \<open>None\<close> is a missing (undefined or null) field.
\<close>

record PartialStudent =
  strand_opt :: "string option"
  enrollment_status_opt :: "string option"

text \<open>
  A failed query makes the fetch functions throw \<open>new Error(message)\<close>; the message is
  the error value.  A response of the Record Source is the error or the rows.
\<close>

datatype exn = Error string | TypeError string

type_synonym 'a response = "string + 'a"

section \<open>Aggregator: \<open>fetchAndProcessAllStudents\<close>\<close>

text \<open>
  The counters are JavaScript numbers held in plain objects.  An object is the map of its
  own properties; a read \<open>obj[k]\<close> also finds the properties inherited from
  \<open>Object.prototype\<close>, so \<open>obj[k] !== undefined\<close> holds for those names too.  \<open>obj[k]++\<close>
  on a number stores its successor; on an inherited (non-numeric) value or on \<open>NaN\<close> it
  stores \<open>NaN\<close> as an own property, except for \<open>__proto__\<close>, whose setter ignores numbers.
\<close>

datatype jsnum = Num nat | NaN

type_synonym counts = "string \<rightharpoonup> jsnum"

definition objectPrototypeKeys :: "string list" where
  "objectPrototypeKeys =
     [''constructor'', ''__defineGetter__'', ''__defineSetter__'', ''hasOwnProperty'',
      ''__lookupGetter__'', ''__lookupSetter__'', ''isPrototypeOf'', ''propertyIsEnumerable'',
      ''toString'', ''valueOf'', ''__proto__'', ''toLocaleString'']"

definition isDefined :: "counts \<Rightarrow> string \<Rightarrow> bool" where
  "isDefined obj k \<longleftrightarrow> obj k \<noteq> None \<or> k \<in> set objectPrototypeKeys"

definition increment :: "counts \<Rightarrow> string \<Rightarrow> counts" where
  "increment obj k =
     (if k = ''__proto__'' then obj
      else obj(k \<mapsto> (case obj k of Some (Num n) \<Rightarrow> Num (Suc n) | _ \<Rightarrow> NaN)))"

text \<open>
  One guarded increment: \<open>if (v && obj[v] !== undefined) obj[v]++\<close>.  A missing value and
  the empty string are falsy.
\<close>

fun countIf :: "counts \<Rightarrow> string option \<Rightarrow> counts" where
  "countIf obj None = obj"
| "countIf obj (Some k) = (if k \<noteq> [] \<and> isDefined obj k then increment obj k else obj)"

record tally =
  strandCounts :: counts
  statusCounts :: counts

definition initialTally :: tally where
  "initialTally =
     \<lparr> strandCounts = [''STEM'' \<mapsto> Num 0, ''ABM'' \<mapsto> Num 0, ''TVL-ICT'' \<mapsto> Num 0,
                        ''HUMSS'' \<mapsto> Num 0],
       statusCounts = [''Pending'' \<mapsto> Num 0, ''Enrolled'' \<mapsto> Num 0, ''Rejected'' \<mapsto> Num 0] \<rparr>"

text \<open>The body of the \<open>forEach\<close> callback, and the loop.\<close>

definition countStudent :: "PartialStudent \<Rightarrow> tally \<Rightarrow> tally" where
  "countStudent student t =
     \<lparr> strandCounts = countIf (strandCounts t) (strand_opt student),
       statusCounts = countIf (statusCounts t) (enrollment_status_opt student) \<rparr>"

definition aggregate :: "PartialStudent list \<Rightarrow> tally" where
  "aggregate students = fold countStudent students initialTally"

definition fetchAndProcessAllStudents :: "PartialStudent list response \<Rightarrow> exn + tally" where
  "fetchAndProcessAllStudents resp =
     (case resp of
        Inl err \<Rightarrow> Inl (Error ''Failed to load student data.'')
      | Inr students \<Rightarrow> Inr (aggregate students))"

text \<open>The enumerations, and the sum of a tally over one of them.\<close>

definition tracks :: "string list" where
  "tracks = [''STEM'', ''ABM'', ''TVL-ICT'', ''HUMSS'']"

definition statuses :: "string list" where
  "statuses = [''Pending'', ''Enrolled'', ''Rejected'']"

definition recognized :: "string list \<Rightarrow> string option \<Rightarrow> bool" where
  "recognized enum v \<longleftrightarrow> (case v of None \<Rightarrow> False | Some k \<Rightarrow> k \<in> set enum)"

fun jsAdd :: "jsnum \<Rightarrow> jsnum \<Rightarrow> jsnum" where
  "jsAdd (Num a) (Num b) = Num (a + b)"
| "jsAdd _ _ = NaN"

definition tallySum :: "counts \<Rightarrow> string list \<Rightarrow> jsnum" where
  "tallySum obj enum =
     foldr (\<lambda>k acc. case obj k of None \<Rightarrow> NaN | Some v \<Rightarrow> jsAdd v acc) enum (Num 0)"

section \<open>Strings and numbers of the runtime\<close>

text \<open>
  \<open>Number.prototype.toString\<close> on an integral number (in the range where JavaScript prints
  plain digits): the decimal digits, most significant first, with a minus sign for a
  negative number.
\<close>

definition digitChar :: "nat \<Rightarrow> char" where
  "digitChar d = ''0123456789'' ! d"

fun natToString :: "nat \<Rightarrow> string" where
  "natToString n =
     (if n < 10 then [digitChar n] else natToString (n div 10) @ [digitChar (n mod 10)])"

declare natToString.simps [simp del]

definition numberToString :: "int \<Rightarrow> string" where
  "numberToString i =
     (if i < 0 then CHR ''-'' # natToString (nat (- i)) else natToString (nat i))"

fun jsnumToString :: "jsnum \<Rightarrow> string" where
  "jsnumToString (Num n) = natToString n"
| "jsnumToString NaN = ''NaN''"

text \<open>Reading a digit string back, to state that \<open>natToString\<close> is the decimal form.\<close>

definition digitsValue :: "string \<Rightarrow> nat" where
  "digitsValue s = foldl (\<lambda>acc c. 10 * acc + (of_char c - 48)) 0 s"

text \<open>
  \<open>String.prototype.toLowerCase\<close>.  A character here is a code unit below 256, that is
  a character of Latin-1, and the function maps each uppercase letter of that range to its
  lowercase letter: \<open>A\<close> to \<open>Z\<close>, U+00C0 to U+00D6 and U+00D8 to U+00DE, each to the
  letter 32 places further; every other character of the range (digits, blanks, signs,
  the lowercase letters, the multiplication sign U+00D7) is kept.
\<close>

definition upperLetters :: string where
  "upperLetters = ''ABCDEFGHIJKLMNOPQRSTUVWXYZ'' @
       [CHR 0xC0, CHR 0xC1, CHR 0xC2, CHR 0xC3, CHR 0xC4, CHR 0xC5, CHR 0xC6, CHR 0xC7,
        CHR 0xC8, CHR 0xC9, CHR 0xCA, CHR 0xCB, CHR 0xCC, CHR 0xCD, CHR 0xCE, CHR 0xCF,
        CHR 0xD0, CHR 0xD1, CHR 0xD2, CHR 0xD3, CHR 0xD4, CHR 0xD5, CHR 0xD6, CHR 0xD8,
        CHR 0xD9, CHR 0xDA, CHR 0xDB, CHR 0xDC, CHR 0xDD, CHR 0xDE]"

definition lowerLetters :: string where
  "lowerLetters = ''abcdefghijklmnopqrstuvwxyz'' @
       [CHR 0xE0, CHR 0xE1, CHR 0xE2, CHR 0xE3, CHR 0xE4, CHR 0xE5, CHR 0xE6, CHR 0xE7,
        CHR 0xE8, CHR 0xE9, CHR 0xEA, CHR 0xEB, CHR 0xEC, CHR 0xED, CHR 0xEE, CHR 0xEF,
        CHR 0xF0, CHR 0xF1, CHR 0xF2, CHR 0xF3, CHR 0xF4, CHR 0xF5, CHR 0xF6, CHR 0xF8,
        CHR 0xF9, CHR 0xFA, CHR 0xFB, CHR 0xFC, CHR 0xFD, CHR 0xFE]"

definition lowerChar :: "char \<Rightarrow> char" where
  "lowerChar c = (case map_of (zip upperLetters lowerLetters) c of Some l \<Rightarrow> l | None \<Rightarrow> c)"

definition toLowerCase :: "string \<Rightarrow> string" where
  "toLowerCase s = map lowerChar s"

text \<open>\<open>s.includes(q)\<close>: \<open>q\<close> occurs in \<open>s\<close> as a contiguous substring.\<close>

fun stringIncludes :: "string \<Rightarrow> string \<Rightarrow> bool" where
  "stringIncludes [] q = (q = [])"
| "stringIncludes (c # s) q = (prefix q (c # s) \<or> stringIncludes s q)"

section \<open>Recency Selector: \<open>fetchRecentApplications\<close>\<close>

text \<open>
  Modelled from the spec: the Record Source's retrieval ordered by a field with a row
  limit (\<open>.order('lname', { ascending: false }).limit(5)\<close> is evaluated by the data
  service, whose code is not in the sources).  Following the spec's \<open>selectRecent\<close>:
  records sorted by last name in descending lexicographic order, ties in their original
  relative order, at most \<open>n\<close> of them.
\<close>

fun insertDescending :: "NewStudent \<Rightarrow> NewStudent list \<Rightarrow> NewStudent list" where
  "insertDescending x [] = [x]"
| "insertDescending x (y # ys) =
     (if lname y \<le> lname x then x # y # ys else y # insertDescending x ys)"

definition orderDescending :: "NewStudent list \<Rightarrow> NewStudent list" where
  "orderDescending records = foldr insertDescending records []"

definition selectRecent :: "NewStudent list \<Rightarrow> nat \<Rightarrow> NewStudent list" where
  "selectRecent records n = take n (orderDescending records)"

section \<open>Rendered rows\<close>

text \<open>
  A table row of either page.  Markup strings are represented by the element they denote:
  the class of the row, its \<open>data-*\<close> attributes, the content of its cells, the class of
  the status badge, and the inline \<open>display\<close> style.
\<close>

record tr =
  className :: string
  dataset :: "string \<rightharpoonup> string"
  cells :: "string list"
  badgeClass :: string
  display :: string

definition statusClass :: "string \<Rightarrow> string" where
  "statusClass st =
     (if st = ''Pending'' then ''bg-yellow-100 text-yellow-800''
      else if st = ''Enrolled'' then ''bg-green-100 text-green-800''
      else ''bg-red-100 text-red-800'')"

definition generateTableRow :: "NewStudent \<Rightarrow> tr" where
  "generateTableRow student =
     \<lparr> className = ''bg-white border-b hover:bg-gray-50 transition-colors'',
       dataset = Map.empty,
       cells = [fname student @ '' '' @ lname student, strand student,
                numberToString (gradeLevel student), semester student,
                enrollment_status student],
       badgeClass = statusClass (enrollment_status student),
       display = [] \<rparr>"

section \<open>Dashboard page\<close>

text \<open>
  The part of the document that the dashboard script touches: the text of the element each
  selector finds (no entry when \<open>querySelector\<close> finds none), the rows of the recent
  applications table (\<open>None\<close> when the table body is absent), and the console.
\<close>

record dashboard =
  elementText :: "string \<rightharpoonup> string"
  recentTableBody :: "tr list option"
  dashConsole :: "string list"

definition stemCount :: string where "stemCount = ''.stat-stem-count''"
definition abmCount :: string where "abmCount = ''.stat-abm-count''"
definition tvlCount :: string where "tvlCount = ''.stat-tvl-count''"
definition humssCount :: string where "humssCount = ''.stat-humss-count''"
definition pendingCount :: string where "pendingCount = ''.stat-pending-count''"
definition enrolledCount :: string where "enrolledCount = ''.stat-enrolled-count''"
definition rejectedCount :: string where "rejectedCount = ''.stat-rejected-count''"

text \<open>
  Statements that may throw: the exception raised, if any, and the state reached.  An
  exception ends the sequence and keeps the writes made before it.
\<close>

type_synonym 's stmt = "'s \<Rightarrow> exn option \<times> 's"

definition thenDo :: "'s stmt \<Rightarrow> 's stmt \<Rightarrow> 's stmt" where
  "thenDo f g s = (case f s of (None, s') \<Rightarrow> g s' | (Some e, s') \<Rightarrow> (Some e, s'))"

definition fetchRecentApplications ::
    "NewStudent list response \<Rightarrow> dashboard \<Rightarrow> (exn + NewStudent list) \<times> dashboard" where
  "fetchRecentApplications source d =
     (case source of
        Inl err \<Rightarrow>
          (Inl (Error ''Failed to load recent applications.''),
           d\<lparr>dashConsole := dashConsole d @ [''Error fetching recent applications:'']\<rparr>)
      | Inr records \<Rightarrow> (Inr (selectRecent records 5), d))"

definition updateElementText :: "string \<Rightarrow> string \<Rightarrow> dashboard \<Rightarrow> dashboard" where
  "updateElementText selector text d =
     (case elementText d selector of
        Some old \<Rightarrow> d\<lparr>elementText := (elementText d)(selector \<mapsto> text)\<rparr>
      | None \<Rightarrow>
          d\<lparr>dashConsole := dashConsole d @ [''Element not found for selector: '' @ selector]\<rparr>)"

text \<open>
  \<open>updateElementText(selector, counts.KEY.toString())\<close> for one of the seven literal keys,
  none of which is an inherited name: where the object has no such key the read gives
  \<open>undefined\<close>, whose \<open>toString\<close> throws a \<open>TypeError\<close>.
\<close>

definition updateCount :: "string \<Rightarrow> counts \<Rightarrow> string \<Rightarrow> dashboard stmt" where
  "updateCount selector obj k d =
     (case obj k of
        None \<Rightarrow> (Some (TypeError ''Cannot read properties of undefined''), d)
      | Some v \<Rightarrow> (None, updateElementText selector (jsnumToString v) d))"

definition renderRecent :: "NewStudent list \<Rightarrow> dashboard stmt" where
  "renderRecent recentApplications d =
     (None, d\<lparr>recentTableBody :=
                map_option (\<lambda>old. map generateTableRow recentApplications) (recentTableBody d)\<rparr>)"

definition renderDashboard :: "tally \<Rightarrow> NewStudent list \<Rightarrow> dashboard stmt" where
  "renderDashboard t recentApplications =
     thenDo (updateCount stemCount (strandCounts t) ''STEM'')
    (thenDo (updateCount abmCount (strandCounts t) ''ABM'')
    (thenDo (updateCount tvlCount (strandCounts t) ''TVL-ICT'')
    (thenDo (updateCount humssCount (strandCounts t) ''HUMSS'')
    (thenDo (updateCount pendingCount (statusCounts t) ''Pending'')
    (thenDo (updateCount enrolledCount (statusCounts t) ''Enrolled'')
    (thenDo (updateCount rejectedCount (statusCounts t) ''Rejected'')
            (renderRecent recentApplications)))))))"

text \<open>The \<open>try\<close> block of the \<open>DOMContentLoaded\<close> handler, then the handler with its \<open>catch\<close>.\<close>

definition dashboardTry ::
    "PartialStudent list response \<Rightarrow> NewStudent list response \<Rightarrow> dashboard stmt" where
  "dashboardTry allResp recentSource d =
     (case fetchAndProcessAllStudents allResp of
        Inl e \<Rightarrow> (Some e, d)
      | Inr t \<Rightarrow>
          (case fetchRecentApplications recentSource d of
             (Inl e, d') \<Rightarrow> (Some e, d')
           | (Inr recentApplications, d') \<Rightarrow> renderDashboard t recentApplications d'))"

definition dashboardHandler ::
    "PartialStudent list response \<Rightarrow> NewStudent list response \<Rightarrow> dashboard \<Rightarrow> dashboard" where
  "dashboardHandler allResp recentSource d =
     (case dashboardTry allResp recentSource d of
        (None, d') \<Rightarrow> d'
      | (Some err, d') \<Rightarrow> d'\<lparr>dashConsole := dashConsole d' @ [''Error loading dashboard data:'']\<rparr>)"

section \<open>Students page\<close>

text \<open>
  The elements that the students script looks up by id, each \<open>None\<close> when the document has
  no such element: the value of the search input and of the three selects, the rows of the
  table body, whether the modal carries the class \<open>hidden\<close>, and the text of the five modal
  fields; \<open>closeModalBtn\<close> tells whether the close button exists.  With them, the state of the
  script: the listeners it has attached, the console, the number of queries sent to the
  Record Source, and the variable \<open>allStudents\<close>.
\<close>

datatype listener =
    SearchInputListener | FilterStrandListener | FilterYearListener | FilterSemesterListener
  | TableBodyClickListener | CloseModalClickListener | ModalClickListener

record page =
  searchInput :: "string option"
  filterStrand :: "string option"
  filterYear :: "string option"
  filterSemester :: "string option"
  tableBody :: "tr list option"
  modal :: "bool option"
  closeModalBtn :: bool
  modalName :: "string option"
  modalStrand :: "string option"
  modalYear :: "string option"
  modalSemester :: "string option"
  modalStatus :: "string option"
  listeners :: "listener list"
  console :: "string list"
  queries :: nat
  allStudents :: "NewStudent list"

definition fetchAllStudents ::
    "NewStudent list response \<Rightarrow> page \<Rightarrow> (exn + NewStudent list) \<times> page" where
  "fetchAllStudents resp p =
     (let p' = p\<lparr>queries := queries p + 1\<rparr> in
      case resp of
        Inl err \<Rightarrow>
          (Inl (Error ''Failed to load students.''),
           p'\<lparr>console := console p' @ [''Error fetching students:'']\<rparr>)
      | Inr data \<Rightarrow> (Inr data, p'\<lparr>console := console p' @ [''Fetched students for table:'']\<rparr>))"

text \<open>The row that the \<open>forEach\<close> callback of \<open>populateTable\<close> builds and appends.\<close>

definition studentRow :: "nat \<Rightarrow> NewStudent \<Rightarrow> tr" where
  "studentRow index student =
     \<lparr> className = (if index mod 2 = 0 then ''bg-white'' else ''bg-gray-50'') @ '' border-b'',
       dataset = [''name'' \<mapsto> fname student @ '' '' @ lname student,
                  ''strand'' \<mapsto> strand student,
                  ''year'' \<mapsto> numberToString (gradeLevel student),
                  ''semester'' \<mapsto> semester student,
                  ''status'' \<mapsto> enrollment_status student],
       cells = [fname student @ '' '' @ lname student, strand student,
                numberToString (gradeLevel student), semester student,
                enrollment_status student, ''VIEW''],
       badgeClass = statusClass (enrollment_status student),
       display = [] \<rparr>"

definition populateTable :: "NewStudent list \<Rightarrow> page \<Rightarrow> page" where
  "populateTable students p =
     p\<lparr>tableBody :=
         map_option (\<lambda>old. map (\<lambda>(index, student). studentRow index student)
                               (enumerate 0 students))
                    (tableBody p)\<rparr>"

text \<open>
  The body of the loop of \<open>filterTable\<close>, for a lowercased search term and the values of the
  three selects, and \<open>filterTable\<close> itself over every row of the table body.
\<close>

definition orEmpty :: "string option \<Rightarrow> string" where
  "orEmpty v = (case v of None \<Rightarrow> [] | Some s \<Rightarrow> s)"

definition filterRow :: "string \<Rightarrow> string \<Rightarrow> string \<Rightarrow> string \<Rightarrow> tr \<Rightarrow> tr" where
  "filterRow searchTerm strandSel yearSel semesterSel row =
     (let name = toLowerCase (orEmpty (dataset row ''name''));
          rowStrand = orEmpty (dataset row ''strand'');
          rowYear = orEmpty (dataset row ''year'');
          rowSemester = orEmpty (dataset row ''semester'');
          nameMatch = stringIncludes name searchTerm;
          strandMatch = (strandSel = ''all'' \<or> rowStrand = strandSel);
          yearMatch = (yearSel = ''all'' \<or> rowYear = yearSel);
          semesterMatch = (semesterSel = ''all'' \<or> rowSemester = semesterSel)
      in if nameMatch \<and> strandMatch \<and> yearMatch \<and> semesterMatch
         then row\<lparr>display := []\<rparr>
         else row\<lparr>display := ''none''\<rparr>)"

definition filterTable :: "page \<Rightarrow> page" where
  "filterTable p =
     (case (searchInput p, filterStrand p, filterYear p, filterSemester p) of
        (Some searchValue, Some strandSel, Some yearSel, Some semesterSel) \<Rightarrow>
          p\<lparr>tableBody :=
              map_option (map (filterRow (toLowerCase searchValue) strandSel yearSel semesterSel))
                         (tableBody p)\<rparr>
      | _ \<Rightarrow> p)"

text \<open>
  \<open>openStudentModal\<close>: the five texts read from the row's data attributes (\<open>?? 'N/A'\<close>),
  written to the modal fields that exist; then the modal, if it exists, loses \<open>hidden\<close>.
\<close>

record DetailView =
  displayName :: string
  track :: string
  level :: string
  termLabel :: string
  status :: string

definition orNA :: "string option \<Rightarrow> string" where
  "orNA v = (case v of None \<Rightarrow> ''N/A'' | Some s \<Rightarrow> s)"

definition modalTexts :: "tr \<Rightarrow> DetailView" where
  "modalTexts row =
     \<lparr> displayName = orNA (dataset row ''name''),
       track = orNA (dataset row ''strand''),
       level = orNA (dataset row ''year''),
       termLabel = orNA (dataset row ''semester''),
       status = orNA (dataset row ''status'') \<rparr>"

definition openStudentModal :: "tr \<Rightarrow> page \<Rightarrow> page" where
  "openStudentModal row p =
     p\<lparr>modalName := map_option (\<lambda>old. displayName (modalTexts row)) (modalName p),
       modalStrand := map_option (\<lambda>old. track (modalTexts row)) (modalStrand p),
       modalYear := map_option (\<lambda>old. level (modalTexts row)) (modalYear p),
       modalSemester := map_option (\<lambda>old. termLabel (modalTexts row)) (modalSemester p),
       modalStatus := map_option (\<lambda>old. status (modalTexts row)) (modalStatus p),
       modal := map_option (\<lambda>hidden. False) (modal p)\<rparr>"

text \<open>
  The Detail Projector on a record: what \<open>openStudentModal\<close> shows for the row that
  \<open>populateTable\<close> builds from it.
\<close>

definition project :: "NewStudent \<Rightarrow> DetailView" where
  "project student = modalTexts (studentRow 0 student)"

text \<open>The placeholder row written when the fetch fails.\<close>

definition errorRow :: tr where
  "errorRow =
     \<lparr> className = [], dataset = Map.empty, cells = [''Error loading students.''],
       badgeClass = [], display = [] \<rparr>"

definition attachListeners :: "page \<Rightarrow> page" where
  "attachListeners p =
     p\<lparr>listeners := listeners p @
         [SearchInputListener, FilterStrandListener, FilterYearListener,
          FilterSemesterListener, TableBodyClickListener] @
         (if closeModalBtn p then [CloseModalClickListener] else []) @
         (if modal p \<noteq> None then [ModalClickListener] else [])\<rparr>"

text \<open>The \<open>DOMContentLoaded\<close> handler of the students page.\<close>

definition studentsHandler :: "NewStudent list response \<Rightarrow> page \<Rightarrow> page" where
  "studentsHandler resp p =
     (if tableBody p = None \<or> searchInput p = None \<or> filterStrand p = None
         \<or> filterYear p = None \<or> filterSemester p = None
      then p\<lparr>console := console p @
                 [''Failed to find one or more essential elements. Script will not run.'']\<rparr>
      else attachListeners
        (case fetchAllStudents resp p of
           (Inr students, p') \<Rightarrow> populateTable students (p'\<lparr>allStudents := students\<rparr>)
         | (Inl err, p') \<Rightarrow>
             p'\<lparr>console := console p' @ [''Error loading students:''],
                tableBody := Some [errorRow]\<rparr>))"

text \<open>
  User events after initialisation.  An edit of the search box or of a select first changes
  the control's value.  A click inside the table body carries whether its target lies in a
  \<open>.view-btn\<close> and the index of the row around it, if any; a click on the modal carries
  whether the target is the modal itself (the backdrop) rather than its content.  A
  listener runs only if it has been attached.
\<close>

datatype event =
    SearchInput string
  | StrandChange string
  | YearChange string
  | SemesterChange string
  | TableClick bool "nat option"
  | CloseClick
  | ModalClick bool

definition closestRow :: "page \<Rightarrow> nat option \<Rightarrow> tr option" where
  "closestRow p target =
     (case (tableBody p, target) of
        (Some rows, Some i) \<Rightarrow> if i < length rows then Some (rows ! i) else None
      | _ \<Rightarrow> None)"

definition hideModal :: "page \<Rightarrow> page" where
  "hideModal p = p\<lparr>modal := map_option (\<lambda>hidden. True) (modal p)\<rparr>"

definition whenListening :: "listener \<Rightarrow> (page \<Rightarrow> page) \<Rightarrow> page \<Rightarrow> page" where
  "whenListening l handler p = (if l \<in> set (listeners p) then handler p else p)"

fun dispatch :: "event \<Rightarrow> page \<Rightarrow> page" where
  "dispatch (SearchInput v) p =
     whenListening SearchInputListener filterTable
       (p\<lparr>searchInput := map_option (\<lambda>old. v) (searchInput p)\<rparr>)"
| "dispatch (StrandChange v) p =
     whenListening FilterStrandListener filterTable
       (p\<lparr>filterStrand := map_option (\<lambda>old. v) (filterStrand p)\<rparr>)"
| "dispatch (YearChange v) p =
     whenListening FilterYearListener filterTable
       (p\<lparr>filterYear := map_option (\<lambda>old. v) (filterYear p)\<rparr>)"
| "dispatch (SemesterChange v) p =
     whenListening FilterSemesterListener filterTable
       (p\<lparr>filterSemester := map_option (\<lambda>old. v) (filterSemester p)\<rparr>)"
| "dispatch (TableClick viewButton target) p =
     whenListening TableBodyClickListener
       (\<lambda>p. case closestRow p target of
               Some row \<Rightarrow> if viewButton then openStudentModal row p else p
             | None \<Rightarrow> p) p"
| "dispatch CloseClick p = whenListening CloseModalClickListener hideModal p"
| "dispatch (ModalClick onBackdrop) p =
     whenListening ModalClickListener (\<lambda>p. if onBackdrop then hideModal p else p) p"

text \<open>
  The detail-view state read off the page, and the state machine in the spec's words, to
  compare the handlers with: selection opens (or re-enters Open), dismissal closes, and
  nothing else moves.
\<close>

datatype detail_state = Closed | Open

datatype detail_event = Select | Dismiss | NoDetailEvent

definition detailState :: "page \<Rightarrow> detail_state option" where
  "detailState p = map_option (\<lambda>hidden. if hidden then Closed else Open) (modal p)"

fun specDetailStep :: "detail_state \<Rightarrow> detail_event \<Rightarrow> detail_state" where
  "specDetailStep Closed Select = Open"
| "specDetailStep Open Select = Open"
| "specDetailStep Open Dismiss = Closed"
| "specDetailStep Closed Dismiss = Closed"
| "specDetailStep s NoDetailEvent = s"

definition detailEvent :: "page \<Rightarrow> event \<Rightarrow> detail_event" where
  "detailEvent p e =
     (case e of
        TableClick viewButton target \<Rightarrow>
          if viewButton \<and> closestRow p target \<noteq> None then Select else NoDetailEvent
      | CloseClick \<Rightarrow> Dismiss
      | ModalClick onBackdrop \<Rightarrow> if onBackdrop then Dismiss else NoDetailEvent
      | _ \<Rightarrow> NoDetailEvent)"

section \<open>Observations on the students page\<close>



text \<open>
  Modelled from the spec: the markup of the students page, which is not among the sources.
  Every element that the script looks up exists, and the detail view starts Closed: the
  modal carries the class \<open>hidden\<close> until a selection removes it.
\<close>

definition rosterMarkup :: "page \<Rightarrow> bool" where
  "rosterMarkup p \<longleftrightarrow>
     searchInput p \<noteq> None \<and> filterStrand p \<noteq> None \<and> filterYear p \<noteq> None
     \<and> filterSemester p \<noteq> None \<and> tableBody p \<noteq> None
     \<and> modal p = Some True \<and> closeModalBtn p
     \<and> modalName p \<noteq> None \<and> modalStrand p \<noteq> None \<and> modalYear p \<noteq> None
     \<and> modalSemester p \<noteq> None \<and> modalStatus p \<noteq> None"

text \<open>The detail shown in the modal, when all five fields exist.\<close>

definition detailView :: "page \<Rightarrow> DetailView option" where
  "detailView p =
     (case (modalName p, modalStrand p, modalYear p, modalSemester p, modalStatus p) of
        (Some a, Some b, Some c, Some d, Some e) \<Rightarrow>
          Some \<lparr>displayName = a, track = b, level = c, termLabel = d, status = e\<rparr>
      | _ \<Rightarrow> None)"

text \<open>The page after a sequence of user events, oldest first.\<close>

definition runEvents :: "event list \<Rightarrow> page \<Rightarrow> page" where
  "runEvents events p = foldl (\<lambda>q e. dispatch e q) p events"

text \<open>
  The detail view is live: the modal and its five fields exist and the three listeners
  that open and close it are attached.
\<close>

definition detailLive :: "page \<Rightarrow> bool" where
  "detailLive p \<longleftrightarrow>
     TableBodyClickListener \<in> set (listeners p) \<and> CloseModalClickListener \<in> set (listeners p)
     \<and> ModalClickListener \<in> set (listeners p) \<and> modal p \<noteq> None
     \<and> modalName p \<noteq> None \<and> modalStrand p \<noteq> None \<and> modalYear p \<noteq> None
     \<and> modalSemester p \<noteq> None \<and> modalStatus p \<noteq> None"

text \<open>The data attributes of the rows of the table.\<close>

definition datasets :: "page \<Rightarrow> (string \<rightharpoonup> string) list option" where
  "datasets p = map_option (map dataset) (tableBody p)"

section \<open>Examples\<close>

text \<open>The two records of the spec's scenarios.\<close>

definition doe :: NewStudent where
  "doe = \<lparr>lname = ''Doe'', fname = ''Jane'', strand = ''STEM'', gradeLevel = 11,
           semester = ''1st'', enrollment_status = ''Pending''\<rparr>"

definition cruz :: NewStudent where
  "cruz = \<lparr>lname = ''Cruz'', fname = ''Ana'', strand = ''ABM'', gradeLevel = 12,
            semester = ''2nd'', enrollment_status = ''Enrolled''\<rparr>"


text \<open>
  A students page as its markup gives it: every element present, an empty search box, the
  three selects on \<open>all\<close>, an empty table and a hidden modal with empty fields.
\<close>

definition examplePage :: page where
  "examplePage =
     \<lparr> searchInput = Some [], filterStrand = Some ''all'', filterYear = Some ''all'',
       filterSemester = Some ''all'', tableBody = Some [], modal = Some True,
       closeModalBtn = True, modalName = Some [], modalStrand = Some [],
       modalYear = Some [], modalSemester = Some [], modalStatus = Some [],
       listeners = [], console = [], queries = 0, allStudents = [] \<rparr>"

text \<open>
  A dashboard page with every element present, showing a dash in each counter and no
  recent row, and a record of the counting query.
\<close>

definition exampleDashboard :: dashboard where
  "exampleDashboard =
     \<lparr> elementText = [stemCount \<mapsto> ''-'', abmCount \<mapsto> ''-'', tvlCount \<mapsto> ''-'',
                       humssCount \<mapsto> ''-'', pendingCount \<mapsto> ''-'', enrolledCount \<mapsto> ''-'',
                       rejectedCount \<mapsto> ''-''],
       recentTableBody = Some [],
       dashConsole = [] \<rparr>"

definition stemPending :: PartialStudent where
  "stemPending = \<lparr>strand_opt = Some ''STEM'', enrollment_status_opt = Some ''Pending''\<rparr>"

section \<open>The Aggregator counts every category\<close>

lemma countIf_key:
  "obj k = Some (Num n) \<Longrightarrow> k \<noteq> [] \<Longrightarrow> k \<noteq> ''__proto__'' \<Longrightarrow>
   countIf obj v k = Some (Num (if v = Some k then Suc n else n))"
  by (cases v) (auto simp: isDefined_def increment_def)

lemma countIf_other_key: "v \<noteq> Some k \<Longrightarrow> countIf obj v k = obj k"
  by (cases v) (auto simp: increment_def)

lemma countIf_same_key:
  "obj k = Some (Num n) \<Longrightarrow> k \<noteq> [] \<Longrightarrow> k \<noteq> ''__proto__'' \<Longrightarrow>
   countIf obj (Some k) = obj(k \<mapsto> Num (Suc n))"
  by (simp add: isDefined_def increment_def)

lemma fold_strandCounts:
  "strandCounts t k = Some (Num n) \<Longrightarrow> k \<noteq> [] \<Longrightarrow> k \<noteq> ''__proto__'' \<Longrightarrow>
   strandCounts (fold countStudent rs t) k =
     Some (Num (n + length (filter (\<lambda>r. strand_opt r = Some k) rs)))"
  by (induction rs arbitrary: t n) (simp_all add: countStudent_def countIf_key)

lemma fold_statusCounts:
  "statusCounts t k = Some (Num n) \<Longrightarrow> k \<noteq> [] \<Longrightarrow> k \<noteq> ''__proto__'' \<Longrightarrow>
   statusCounts (fold countStudent rs t) k =
     Some (Num (n + length (filter (\<lambda>r. enrollment_status_opt r = Some k) rs)))"
  by (induction rs arbitrary: t n) (simp_all add: countStudent_def countIf_key)

lemma aggregate_strand:
  "k \<in> set tracks \<Longrightarrow>
   strandCounts (aggregate students) k =
     Some (Num (length (filter (\<lambda>s. strand_opt s = Some k) students)))"
  unfolding aggregate_def
  using fold_strandCounts[of initialTally k 0 students]
  by (auto simp: tracks_def initialTally_def)

lemma aggregate_status:
  "k \<in> set statuses \<Longrightarrow>
   statusCounts (aggregate students) k =
     Some (Num (length (filter (\<lambda>s. enrollment_status_opt s = Some k) students)))"
  unfolding aggregate_def
  using fold_statusCounts[of initialTally k 0 students]
  by (auto simp: statuses_def initialTally_def)

lemma enumeration_keys:
  "k \<in> set tracks \<or> k \<in> set statuses \<Longrightarrow> k \<noteq> [] \<and> k \<noteq> ''__proto__''"
  by (auto simp: tracks_def statuses_def)

text \<open>
  C3.  For every sequence of records, the empty one included, the counting loop of
  \<open>fetchAndProcessAllStudents\<close> returns, without raising, two mappings that hold a counter
  for each of the four tracks and each of the three statuses, 0 by default; the counter
  of a track (status) is the number of records carrying exactly that value.  In one step, a
  record with a recognized value increments that counter and no other entry, and a record
  whose value is unrecognized or missing leaves every counter of the enumeration as it was.
\<close>

theorem aggregate_total_counts:
  "(\<forall>k\<in>set tracks. strandCounts (aggregate students) k =
       Some (Num (length (filter (\<lambda>s. strand_opt s = Some k) students))))
   \<and> (\<forall>k\<in>set statuses. statusCounts (aggregate students) k =
       Some (Num (length (filter (\<lambda>s. enrollment_status_opt s = Some k) students))))
   \<and> (\<forall>k\<in>set tracks. strandCounts (aggregate []) k = Some (Num 0))
   \<and> (\<forall>k\<in>set statuses. statusCounts (aggregate []) k = Some (Num 0))
   \<and> fetchAndProcessAllStudents (Inr students) = Inr (aggregate students)
   \<and> (\<forall>k\<in>set tracks. \<forall>n. strand_opt s = Some k \<and> strandCounts t k = Some (Num n) \<longrightarrow>
         strandCounts (countStudent s t) = (strandCounts t)(k \<mapsto> Num (Suc n)))
   \<and> (\<forall>k\<in>set statuses. \<forall>n.
         enrollment_status_opt s = Some k \<and> statusCounts t k = Some (Num n) \<longrightarrow>
         statusCounts (countStudent s t) = (statusCounts t)(k \<mapsto> Num (Suc n)))
   \<and> (\<not> recognized tracks (strand_opt s) \<longrightarrow>
         (\<forall>k\<in>set tracks. strandCounts (countStudent s t) k = strandCounts t k))
   \<and> (\<not> recognized statuses (enrollment_status_opt s) \<longrightarrow>
         (\<forall>k\<in>set statuses. statusCounts (countStudent s t) k = statusCounts t k))"
proof -
  have skip: "\<not> recognized enum v \<Longrightarrow> k \<in> set enum \<Longrightarrow> countIf obj v k = obj k"
    for enum v k and obj :: counts
    by (rule countIf_other_key) (auto simp: recognized_def)
  have step: "k \<in> set tracks \<or> k \<in> set statuses \<Longrightarrow> obj k = Some (Num n) \<Longrightarrow>
      countIf obj (Some k) = obj(k \<mapsto> Num (Suc n))" for k n and obj :: counts
    using enumeration_keys[of k] by (intro countIf_same_key) simp_all
  have counts: "(\<forall>k\<in>set tracks. strandCounts (aggregate xs) k =
       Some (Num (length (filter (\<lambda>s. strand_opt s = Some k) xs))))
     \<and> (\<forall>k\<in>set statuses. statusCounts (aggregate xs) k =
       Some (Num (length (filter (\<lambda>s. enrollment_status_opt s = Some k) xs))))" for xs
    by (simp add: aggregate_strand aggregate_status)
  have steps: "(\<forall>k\<in>set tracks. \<forall>n. strand_opt s = Some k \<and> strandCounts t k = Some (Num n) \<longrightarrow>
         strandCounts (countStudent s t) = (strandCounts t)(k \<mapsto> Num (Suc n)))
   \<and> (\<forall>k\<in>set statuses. \<forall>n.
         enrollment_status_opt s = Some k \<and> statusCounts t k = Some (Num n) \<longrightarrow>
         statusCounts (countStudent s t) = (statusCounts t)(k \<mapsto> Num (Suc n)))"
    by (auto simp: countStudent_def step simp del: countIf.simps)
  have skips: "(\<not> recognized tracks (strand_opt s) \<longrightarrow>
         (\<forall>k\<in>set tracks. strandCounts (countStudent s t) k = strandCounts t k))
   \<and> (\<not> recognized statuses (enrollment_status_opt s) \<longrightarrow>
         (\<forall>k\<in>set statuses. statusCounts (countStudent s t) k = statusCounts t k))"
    by (simp add: countStudent_def skip)
  have ok: "fetchAndProcessAllStudents (Inr students) = Inr (aggregate students)"
    by (simp add: fetchAndProcessAllStudents_def)
  from counts[of students] counts[of "[]"] steps skips ok show ?thesis
    by simp
qed

text \<open>
  The scenario of the spec with two malformed records added: a record without a track, and
  a record whose track is not one of the four.
\<close>

theorem aggregate_total_counts_witness:
  "strandCounts (aggregate
      [\<lparr>strand_opt = Some ''STEM'', enrollment_status_opt = Some ''Pending''\<rparr>,
       \<lparr>strand_opt = Some ''ABM'', enrollment_status_opt = Some ''Enrolled''\<rparr>,
       \<lparr>strand_opt = None, enrollment_status_opt = Some ''Enrolled''\<rparr>,
       \<lparr>strand_opt = Some ''GAS'', enrollment_status_opt = Some []\<rparr>]) ''STEM''
     = Some (Num 1)
   \<and> ''STEM'' \<in> set tracks"
  using aggregate_total_counts
    [of "[\<lparr>strand_opt = Some ''STEM'', enrollment_status_opt = Some ''Pending''\<rparr>,
          \<lparr>strand_opt = Some ''ABM'', enrollment_status_opt = Some ''Enrolled''\<rparr>,
          \<lparr>strand_opt = None, enrollment_status_opt = Some ''Enrolled''\<rparr>,
          \<lparr>strand_opt = Some ''GAS'', enrollment_status_opt = Some []\<rparr>]"]
  by (simp add: tracks_def)

section \<open>The sum of a tally\<close>

lemma count_partition4:
  "distinct [a, b, c, d] \<Longrightarrow>
   length (filter (\<lambda>x. f x = Some a) xs) + (length (filter (\<lambda>x. f x = Some b) xs) +
   (length (filter (\<lambda>x. f x = Some c) xs) + length (filter (\<lambda>x. f x = Some d) xs)))
   = length (filter (\<lambda>x. recognized [a, b, c, d] (f x)) xs)"
  by (induction xs) (auto simp: recognized_def split: option.splits)

lemma count_partition3:
  "distinct [a, b, c] \<Longrightarrow>
   length (filter (\<lambda>x. f x = Some a) xs) + (length (filter (\<lambda>x. f x = Some b) xs) +
   length (filter (\<lambda>x. f x = Some c) xs))
   = length (filter (\<lambda>x. recognized [a, b, c] (f x)) xs)"
  by (induction xs) (auto simp: recognized_def split: option.splits)

lemma tallySum_tracks:
  "tallySum (strandCounts (aggregate students)) tracks =
     Num (length (filter (\<lambda>s. recognized tracks (strand_opt s)) students))"
proof -
  have "tallySum (strandCounts (aggregate students)) tracks =
    Num (length (filter (\<lambda>s. strand_opt s = Some ''STEM'') students) +
        (length (filter (\<lambda>s. strand_opt s = Some ''ABM'') students) +
        (length (filter (\<lambda>s. strand_opt s = Some ''TVL-ICT'') students) +
         length (filter (\<lambda>s. strand_opt s = Some ''HUMSS'') students))))"
    by (simp add: tallySum_def aggregate_strand) (simp add: tracks_def aggregate_strand)
  also have "\<dots> = Num (length (filter (\<lambda>s. recognized tracks (strand_opt s)) students))"
    unfolding tracks_def by (subst count_partition4) simp_all
  finally show ?thesis .
qed

lemma tallySum_statuses:
  "tallySum (statusCounts (aggregate students)) statuses =
     Num (length (filter (\<lambda>s. recognized statuses (enrollment_status_opt s)) students))"
proof -
  have "tallySum (statusCounts (aggregate students)) statuses =
    Num (length (filter (\<lambda>s. enrollment_status_opt s = Some ''Pending'') students) +
        (length (filter (\<lambda>s. enrollment_status_opt s = Some ''Enrolled'') students) +
         length (filter (\<lambda>s. enrollment_status_opt s = Some ''Rejected'') students)))"
    by (simp add: tallySum_def aggregate_status) (simp add: statuses_def aggregate_status)
  also have "\<dots> =
      Num (length (filter (\<lambda>s. recognized statuses (enrollment_status_opt s)) students))"
    unfolding statuses_def by (subst count_partition3) simp_all
  finally show ?thesis .
qed

lemma length_filter_full: "length (filter P xs) = length xs \<longleftrightarrow> (\<forall>x\<in>set xs. P x)"
  by (metis filter_id_conv length_filter_less less_irrefl_nat)

text \<open>
  C5.  For every record sequence, the counts of the track tally add up to a number that
  is at most the number of records, and equals it exactly when every record has a
  recognized track; likewise for the status tally.
\<close>

theorem tally_sum_at_most_length:
  "(\<exists>n. tallySum (strandCounts (aggregate students)) tracks = Num n \<and> n \<le> length students
        \<and> (n = length students \<longleftrightarrow> (\<forall>s\<in>set students. recognized tracks (strand_opt s))))
   \<and> (\<exists>n. tallySum (statusCounts (aggregate students)) statuses = Num n
        \<and> n \<le> length students
        \<and> (n = length students \<longleftrightarrow>
             (\<forall>s\<in>set students. recognized statuses (enrollment_status_opt s))))"
  by (simp add: tallySum_tracks tallySum_statuses length_filter_full)

theorem tally_sum_at_most_length_witness:
  "tallySum (strandCounts (aggregate
      [\<lparr>strand_opt = Some ''STEM'', enrollment_status_opt = Some ''Pending''\<rparr>,
       \<lparr>strand_opt = Some ''GAS'', enrollment_status_opt = Some ''Enrolled''\<rparr>])) tracks = Num 1
   \<and> tallySum (statusCounts (aggregate
      [\<lparr>strand_opt = Some ''STEM'', enrollment_status_opt = Some ''Pending''\<rparr>,
       \<lparr>strand_opt = Some ''GAS'', enrollment_status_opt = Some ''Enrolled''\<rparr>])) statuses = Num 2
   \<and> \<not> recognized tracks (Some ''GAS'') \<and> recognized statuses (Some ''Enrolled'')"
  using tally_sum_at_most_length
    [of "[\<lparr>strand_opt = Some ''STEM'', enrollment_status_opt = Some ''Pending''\<rparr>,
          \<lparr>strand_opt = Some ''GAS'', enrollment_status_opt = Some ''Enrolled''\<rparr>]"]
  by (simp add: tallySum_tracks tallySum_statuses)
    (simp add: recognized_def tracks_def statuses_def)

section \<open>The tally does not depend on the order of the records\<close>

lemma countIf_commute: "countIf (countIf obj a) b = countIf (countIf obj b) a"
proof (cases a)
  case None
  then show ?thesis by simp
next
  case (Some ka)
  show ?thesis
  proof (cases b)
    case None
    then show ?thesis by simp
  next
    case (Some kb)
    show ?thesis
      unfolding \<open>a = Some ka\<close> \<open>b = Some kb\<close>
      by (rule ext)
        (auto simp: isDefined_def increment_def split: option.splits jsnum.splits)
  qed
qed

lemma countStudent_commute:
  "countStudent x \<circ> countStudent y = countStudent y \<circ> countStudent x"
  by (rule ext) (simp add: countStudent_def countIf_commute)

text \<open>
  C9.  For every record sequence and every permutation of it, \<open>aggregate\<close> gives the same
  tally: the same track mapping and the same status mapping.
\<close>

theorem aggregate_permutation_invariant:
  "mset students' = mset students \<Longrightarrow> aggregate students' = aggregate students"
  unfolding aggregate_def
  using fold_multiset_equiv[of students' countStudent students] countStudent_commute
  by simp

theorem aggregate_permutation_invariant_witness:
  "aggregate [\<lparr>strand_opt = Some ''ABM'', enrollment_status_opt = Some ''Enrolled''\<rparr>,
              \<lparr>strand_opt = Some ''STEM'', enrollment_status_opt = Some ''Pending''\<rparr>]
   = aggregate [\<lparr>strand_opt = Some ''STEM'', enrollment_status_opt = Some ''Pending''\<rparr>,
                \<lparr>strand_opt = Some ''ABM'', enrollment_status_opt = Some ''Enrolled''\<rparr>]"
  by (rule aggregate_permutation_invariant) simp

section \<open>The Recency Selector\<close>

lemma mset_insertDescending: "mset (insertDescending x ys) = add_mset x (mset ys)"
  by (induction ys) auto

lemma mset_orderDescending: "mset (orderDescending records) = mset records"
  unfolding orderDescending_def by (induction records) (auto simp: mset_insertDescending)

lemma set_insertDescending: "set (insertDescending x ys) = insert x (set ys)"
  by (metis mset_insertDescending set_mset_add_mset_insert set_mset_mset)

lemma sorted_insertDescending:
  "sorted_wrt (\<lambda>a b. lname b \<le> lname a) ys \<Longrightarrow>
   sorted_wrt (\<lambda>a b. lname b \<le> lname a) (insertDescending x ys)"
  by (induction ys) (auto simp: set_insertDescending)

lemma sorted_orderDescending:
  "sorted_wrt (\<lambda>a b. lname b \<le> lname a) (orderDescending records)"
  unfolding orderDescending_def by (induction records) (auto simp: sorted_insertDescending)

lemma filter_insertDescending:
  "filter (\<lambda>r. lname r = k) (insertDescending x ys) =
     (if lname x = k then x # filter (\<lambda>r. lname r = k) ys else filter (\<lambda>r. lname r = k) ys)"
  by (induction ys) auto

lemma stable_orderDescending:
  "filter (\<lambda>r. lname r = k) (orderDescending records) = filter (\<lambda>r. lname r = k) records"
  unfolding orderDescending_def by (induction records) (auto simp: filter_insertDescending)

lemma sorted_wrt_take: "sorted_wrt R xs \<Longrightarrow> sorted_wrt R (take n xs)"
  by (metis append_take_drop_id sorted_wrt_append)

lemma subseq_of_submultiset:
  "M \<subseteq># mset ys \<Longrightarrow> \<exists>zs. subseq zs ys \<and> mset zs = M"
proof (induction ys arbitrary: M)
  case Nil
  then show ?case by simp
next
  case (Cons y ys)
  show ?case
  proof (cases "y \<in># M")
    case True
    with Cons.prems have "M - {#y#} \<subseteq># mset ys"
      by (simp add: insert_subset_eq_iff subset_eq_diff_conv)
    from Cons.IH[OF this] obtain zs where "subseq zs ys" "mset zs = M - {#y#}"
      by blast
    with True have "subseq (y # zs) (y # ys) \<and> mset (y # zs) = M"
      by simp
    then show ?thesis by blast
  next
    case False
    have "M \<subseteq># mset ys"
    proof (rule mset_subset_eqI)
      fix a
      from Cons.prems have le: "count M a \<le> count (mset (y # ys)) a"
        by (rule mset_subset_eq_count)
      show "count M a \<le> count (mset ys) a"
      proof (cases "a = y")
        case True
        with False have "count M a = 0" by (simp add: not_in_iff)
        then show ?thesis by simp
      next
        case False
        with le show ?thesis by simp
      qed
    qed
    from Cons.IH[OF this] obtain zs where "subseq zs ys" "mset zs = M"
      by blast
    then have "subseq zs (y # ys) \<and> mset zs = M"
      by (auto intro: list_emb_Cons)
    then show ?thesis by blast
  qed
qed

text \<open>
  C4.  For every record sequence and every \<open>n\<close>, \<open>selectRecent\<close> returns at most
  \<open>min n (length records)\<close> records, all of them when there are no more than \<open>n\<close>.  The
  result is drawn entirely from the input: it is a rearrangement of a subsequence of the
  input, so as a multiset it is contained in the input.  It is sorted by last name in
  descending lexicographic order, and stable: the returned records of any one last name
  are an initial part of the input's records of that name, in the input's order.  The
  records returned are the first \<open>n\<close> of the ordering of the whole input, which is a
  permutation of the input.  \<open>fetchRecentApplications\<close> asks for \<open>n = 5\<close>.
\<close>

theorem selectRecent_properties:
  "length (selectRecent records n) \<le> min n (length records)
   \<and> (length records \<le> n \<longrightarrow> mset (selectRecent records n) = mset records)
   \<and> mset (selectRecent records n) \<subseteq># mset records
   \<and> (\<exists>chosen. subseq chosen records \<and> mset chosen = mset (selectRecent records n))
   \<and> sorted_wrt (\<lambda>a b. lname b \<le> lname a) (selectRecent records n)
   \<and> (\<forall>k. prefix (filter (\<lambda>r. lname r = k) (selectRecent records n))
                   (filter (\<lambda>r. lname r = k) records))
   \<and> prefix (selectRecent records n) (selectRecent records (length records))
   \<and> mset (selectRecent records (length records)) = mset records
   \<and> fst (fetchRecentApplications (Inr records) d) = Inr (selectRecent records 5)"
proof -
  have len: "length (orderDescending records) = length records"
    by (metis mset_orderDescending size_mset)
  have sub: "mset (take n (orderDescending records)) \<subseteq># mset records"
    by (metis append_take_drop_id mset_append mset_orderDescending mset_subset_eq_add_left)
  from subseq_of_submultiset[OF sub]
  have chosen: "\<exists>chosen. subseq chosen records
      \<and> mset chosen = mset (take n (orderDescending records))" .
  have stab: "prefix (filter (\<lambda>r. lname r = k) (take n (orderDescending records)))
                   (filter (\<lambda>r. lname r = k) records)" for k
    using filter_mono_prefix[OF take_is_prefix, of "\<lambda>r. lname r = k" n "orderDescending records"]
    by (simp add: stable_orderDescending)
  have whole: "take (length records) (orderDescending records) = orderDescending records"
    by (simp add: len)
  have every: "length records \<le> n \<Longrightarrow> take n (orderDescending records) = orderDescending records"
    by (simp add: len)
  have first: "prefix (take n (orderDescending records)) (orderDescending records)"
    by (rule take_is_prefix)
  have fetch: "fst (fetchRecentApplications (Inr records) d) = Inr (selectRecent records 5)"
    by (simp add: fetchRecentApplications_def)
  show ?thesis
    unfolding selectRecent_def whole
    using chosen first fetch[unfolded selectRecent_def]
    by (simp add: len sub stab every sorted_wrt_take sorted_orderDescending
        mset_orderDescending)
qed

text \<open>
  Two records named Cruz around one named Doe: with \<open>n = 2\<close> the result is Doe and the
  first Cruz; with \<open>n = 5\<close>, no fewer than the three records, all are returned.
\<close>

theorem selectRecent_properties_witness:
  "selectRecent [cruz, doe, cruz] 2 = [doe, cruz]
   \<and> length (selectRecent [cruz, doe, cruz] 2) \<le> min 2 (length [cruz, doe, cruz])
   \<and> prefix (filter (\<lambda>r. lname r = ''Cruz'') (selectRecent [cruz, doe, cruz] 2))
              (filter (\<lambda>r. lname r = ''Cruz'') [cruz, doe, cruz])
   \<and> length [cruz, doe, cruz] \<le> 5
   \<and> mset (selectRecent [cruz, doe, cruz] 5) = mset [cruz, doe, cruz]"
proof -
  note two = selectRecent_properties[of "[cruz, doe, cruz]" 2]
  note five = selectRecent_properties[of "[cruz, doe, cruz]" 5]
  have result: "selectRecent [cruz, doe, cruz] 2 = [doe, cruz]"
    by (simp add: selectRecent_def orderDescending_def cruz_def doe_def)
  from two have bound:
    "length (selectRecent [cruz, doe, cruz] 2) \<le> min 2 (length [cruz, doe, cruz])"
    by blast
  from two have stable:
    "prefix (filter (\<lambda>r. lname r = ''Cruz'') (selectRecent [cruz, doe, cruz] 2))
            (filter (\<lambda>r. lname r = ''Cruz'') [cruz, doe, cruz])"
    by blast
  have few: "length [cruz, doe, cruz] \<le> 5"
    by simp
  from five have "length [cruz, doe, cruz] \<le> 5 \<longrightarrow>
      mset (selectRecent [cruz, doe, cruz] 5) = mset [cruz, doe, cruz]"
    by blast
  with few have everything: "mset (selectRecent [cruz, doe, cruz] 5) = mset [cruz, doe, cruz]"
    by blast
  from result bound stable few everything show ?thesis
    by (intro conjI)
qed

section \<open>The Filter Engine\<close>


lemma dataset_studentRow:
  "dataset (studentRow i student) ''name'' = Some (fname student @ '' '' @ lname student)"
  "dataset (studentRow i student) ''strand'' = Some (strand student)"
  "dataset (studentRow i student) ''year'' = Some (numberToString (gradeLevel student))"
  "dataset (studentRow i student) ''semester'' = Some (semester student)"
  "dataset (studentRow i student) ''status'' = Some (enrollment_status student)"
  by (simp_all add: studentRow_def)









lemma lowerChar_other: "c \<notin> set upperLetters \<Longrightarrow> lowerChar c = c"
proof -
  assume "c \<notin> set upperLetters"
  moreover have "length upperLetters = length lowerLetters"
    by (simp add: upperLetters_def lowerLetters_def)
  ultimately have "map_of (zip upperLetters lowerLetters) c = None"
    by (simp add: map_of_zip_is_None)
  then show ?thesis by (simp add: lowerChar_def)
qed









section \<open>The Detail Projector\<close>

lemma digits_table: "\<forall>d\<in>set [0..<10]. of_char (digitChar d) - 48 = (d::nat)"
  by code_simp

lemma digitsValue_digitChar: "d < 10 \<Longrightarrow> of_char (digitChar d) - 48 = d"
  using digits_table by simp

lemma digitsValue_natToString: "digitsValue (natToString n) = n"
proof (induction n rule: natToString.induct)
  case (1 n)
  show ?case
  proof (cases "n < 10")
    case True
    then show ?thesis
      by (subst natToString.simps) (simp add: digitsValue_def digitsValue_digitChar)
  next
    case False
    with 1 have "digitsValue (natToString (n div 10)) = n div 10" by simp
    with False show ?thesis
      by (subst natToString.simps) (simp add: digitsValue_def digitsValue_digitChar)
  qed
qed

lemma modalTexts_studentRow:
  "modalTexts (studentRow i student) =
     \<lparr> displayName = fname student @ '' '' @ lname student, track = strand student,
       level = numberToString (gradeLevel student), termLabel = semester student,
       status = enrollment_status student \<rparr>"
  by (simp add: modalTexts_def dataset_studentRow orNA_def)

lemma detailView_openStudentModal:
  "detailView (openStudentModal row p) =
     (if modalName p \<noteq> None \<and> modalStrand p \<noteq> None \<and> modalYear p \<noteq> None
         \<and> modalSemester p \<noteq> None \<and> modalStatus p \<noteq> None
      then Some (modalTexts row) else None)"
  by (auto simp: detailView_def openStudentModal_def split: option.splits)

text \<open>
  C8.  For every record, the projection is the record's \<open>fname + " " + lname\<close>, its strand,
  the decimal string of its grade level (read back as a number it is the grade level), its
  semester and its enrollment status; it is what \<open>openStudentModal\<close> writes into the five
  modal fields for the record's row, whatever the row's index and the fields' previous
  texts.  For the record of Ana Cruz it is \<open>Ana Cruz, ABM, 12, 2nd, Enrolled\<close>.
\<close>

theorem project_detail_view:
  "project student =
     \<lparr> displayName = fname student @ '' '' @ lname student, track = strand student,
       level = numberToString (gradeLevel student), termLabel = semester student,
       status = enrollment_status student \<rparr>
   \<and> (0 \<le> gradeLevel student \<longrightarrow>
        digitsValue (level (project student)) = nat (gradeLevel student))
   \<and> modalTexts (studentRow i student) = project student
   \<and> (modalName p \<noteq> None \<and> modalStrand p \<noteq> None \<and> modalYear p \<noteq> None
        \<and> modalSemester p \<noteq> None \<and> modalStatus p \<noteq> None \<longrightarrow>
        detailView (openStudentModal (studentRow i student) p) = Some (project student))
   \<and> project cruz =
        \<lparr> displayName = ''Ana Cruz'', track = ''ABM'', level = ''12'', termLabel = ''2nd'',
          status = ''Enrolled'' \<rparr>"
proof -
  have "project cruz =
        \<lparr> displayName = ''Ana Cruz'', track = ''ABM'', level = ''12'', termLabel = ''2nd'',
          status = ''Enrolled'' \<rparr>"
    unfolding project_def modalTexts_studentRow
    by (simp add: cruz_def numberToString_def natToString.simps digitChar_def)
  then show ?thesis
    by (simp add: project_def modalTexts_studentRow detailView_openStudentModal
        numberToString_def digitsValue_natToString)
qed

theorem project_detail_view_witness:
  "0 \<le> gradeLevel cruz
   \<and> digitsValue (level (project cruz)) = 12
   \<and> detailView (openStudentModal (studentRow 1 cruz) examplePage) =
       Some \<lparr> displayName = ''Ana Cruz'', track = ''ABM'', level = ''12'',
              termLabel = ''2nd'', status = ''Enrolled'' \<rparr>"
proof -
  have fields: "modalName examplePage \<noteq> None \<and> modalStrand examplePage \<noteq> None
      \<and> modalYear examplePage \<noteq> None \<and> modalSemester examplePage \<noteq> None
      \<and> modalStatus examplePage \<noteq> None"
    by (simp add: examplePage_def)
  have grade: "gradeLevel cruz = 12" by (simp add: cruz_def)
  note inst = project_detail_view[of cruz 1 examplePage]
  from inst have "0 \<le> gradeLevel cruz \<longrightarrow>
      digitsValue (level (project cruz)) = nat (gradeLevel cruz)"
    by blast
  with grade have decimal: "digitsValue (level (project cruz)) = 12"
    by simp
  from inst fields have "detailView (openStudentModal (studentRow 1 cruz) examplePage) =
      Some (project cruz)"
    by blast
  moreover from inst have "project cruz =
      \<lparr> displayName = ''Ana Cruz'', track = ''ABM'', level = ''12'',
        termLabel = ''2nd'', status = ''Enrolled'' \<rparr>"
    by blast
  ultimately show ?thesis using grade decimal by simp
qed

section \<open>The guard on the essential elements\<close>

text \<open>
  C10.  If the table body, the search input or one of the three selects is absent when the
  students page loads, the handler only logs an error: the page is otherwise untouched, no
  query is sent, no listener is attached, and later events run no handler of the script,
  so neither the table nor the modal changes.
\<close>

theorem studentsHandler_missing_element:
  assumes "tableBody p = None \<or> searchInput p = None \<or> filterStrand p = None
      \<or> filterYear p = None \<or> filterSemester p = None"
  shows "studentsHandler resp p =
       p\<lparr>console := console p @
            [''Failed to find one or more essential elements. Script will not run.'']\<rparr>
     \<and> queries (studentsHandler resp p) = queries p
     \<and> listeners (studentsHandler resp p) = listeners p
     \<and> tableBody (studentsHandler resp p) = tableBody p
     \<and> (listeners p = [] \<longrightarrow>
          tableBody (dispatch e (studentsHandler resp p)) = tableBody p
          \<and> modal (dispatch e (studentsHandler resp p)) = modal p
          \<and> listeners (dispatch e (studentsHandler resp p)) = [])"
proof -
  have guard: "studentsHandler resp p =
       p\<lparr>console := console p @
            [''Failed to find one or more essential elements. Script will not run.'']\<rparr>"
    using assms unfolding studentsHandler_def by (simp only: if_True)
  show ?thesis
    unfolding guard by (cases e) (simp_all add: whenListening_def)
qed

theorem studentsHandler_missing_element_witness:
  "studentsHandler (Inr [doe, cruz]) (examplePage\<lparr>filterYear := None\<rparr>) =
     examplePage\<lparr>filterYear := None,
       console := [''Failed to find one or more essential elements. Script will not run.'']\<rparr>
   \<and> queries (studentsHandler (Inr [doe, cruz]) (examplePage\<lparr>filterYear := None\<rparr>)) = 0
   \<and> listeners (studentsHandler (Inr [doe, cruz]) (examplePage\<lparr>filterYear := None\<rparr>)) = []"
proof -
  have missing: "tableBody (examplePage\<lparr>filterYear := None\<rparr>) = None
      \<or> searchInput (examplePage\<lparr>filterYear := None\<rparr>) = None
      \<or> filterStrand (examplePage\<lparr>filterYear := None\<rparr>) = None
      \<or> filterYear (examplePage\<lparr>filterYear := None\<rparr>) = None
      \<or> filterSemester (examplePage\<lparr>filterYear := None\<rparr>) = None"
    by simp
  from studentsHandler_missing_element[OF missing, of "Inr [doe, cruz]"] show ?thesis
    by (simp add: examplePage_def)
qed

section \<open>The detail-view state machine\<close>

lemma filterRow_dataset: "dataset (filterRow a b c d row) = dataset row"
  by (simp add: filterRow_def Let_def)

lemma filterTable_keeps:
  "listeners (filterTable p) = listeners p" "modal (filterTable p) = modal p"
  "modalName (filterTable p) = modalName p" "modalStrand (filterTable p) = modalStrand p"
  "modalYear (filterTable p) = modalYear p" "modalSemester (filterTable p) = modalSemester p"
  "modalStatus (filterTable p) = modalStatus p"
  "map_option (map dataset) (tableBody (filterTable p)) = map_option (map dataset) (tableBody p)"
  by (auto simp: filterTable_def filterRow_dataset option.map_comp comp_def
      split: option.splits)

lemma openStudentModal_keeps:
  "listeners (openStudentModal row p) = listeners p"
  "tableBody (openStudentModal row p) = tableBody p"
  "modal (openStudentModal row p) = map_option (\<lambda>hidden. False) (modal p)"
  "modalName (openStudentModal row p) =
     map_option (\<lambda>old. displayName (modalTexts row)) (modalName p)"
  "modalStrand (openStudentModal row p) =
     map_option (\<lambda>old. track (modalTexts row)) (modalStrand p)"
  "modalYear (openStudentModal row p) =
     map_option (\<lambda>old. level (modalTexts row)) (modalYear p)"
  "modalSemester (openStudentModal row p) =
     map_option (\<lambda>old. termLabel (modalTexts row)) (modalSemester p)"
  "modalStatus (openStudentModal row p) =
     map_option (\<lambda>old. status (modalTexts row)) (modalStatus p)"
  by (simp_all add: openStudentModal_def)

lemma hideModal_keeps:
  "listeners (hideModal p) = listeners p" "tableBody (hideModal p) = tableBody p"
  "modal (hideModal p) = map_option (\<lambda>hidden. True) (modal p)"
  "modalName (hideModal p) = modalName p" "modalStrand (hideModal p) = modalStrand p"
  "modalYear (hideModal p) = modalYear p" "modalSemester (hideModal p) = modalSemester p"
  "modalStatus (hideModal p) = modalStatus p"
  by (simp_all add: hideModal_def)

lemma dispatch_detailLive: "detailLive p \<Longrightarrow> detailLive (dispatch e p)"
  by (cases e)
    (auto simp: detailLive_def whenListening_def filterTable_keeps openStudentModal_keeps
      hideModal_keeps split: option.splits)

lemma dispatch_datasets: "datasets (dispatch e p) = datasets p"
  by (cases e)
    (auto simp: whenListening_def filterTable_keeps datasets_def openStudentModal_keeps
      hideModal_keeps split: option.splits)

lemma runEvents_snoc: "runEvents (events @ [e]) p = dispatch e (runEvents events p)"
  by (simp add: runEvents_def)

lemma runEvents_detailLive: "detailLive p \<Longrightarrow> detailLive (runEvents events p)"
  by (induction events rule: rev_induct)
    (simp_all add: runEvents_snoc dispatch_detailLive, simp add: runEvents_def)

lemma runEvents_datasets: "datasets (runEvents events p) = datasets p"
  by (induction events rule: rev_induct)
    (simp add: runEvents_def, simp add: runEvents_snoc dispatch_datasets)

lemma runEvents_modal_present: "modal p \<noteq> None \<Longrightarrow> modal (runEvents events p) \<noteq> None"
proof (induction events rule: rev_induct)
  case Nil
  then show ?case by (simp add: runEvents_def)
next
  case (snoc e events)
  then show ?case
    by (cases e)
      (auto simp: runEvents_snoc whenListening_def filterTable_keeps openStudentModal_keeps
        hideModal_keeps split: option.splits)
qed

lemma studentsHandler_modal:
  "modal (studentsHandler resp p) = modal p"
  by (auto simp: studentsHandler_def attachListeners_def fetchAllStudents_def populateTable_def
      Let_def split: sum.splits)

lemma studentsHandler_detailLive:
  "rosterMarkup p \<Longrightarrow> detailLive (studentsHandler resp p)"
  by (auto simp: rosterMarkup_def detailLive_def studentsHandler_def attachListeners_def
      fetchAllStudents_def populateTable_def Let_def split: sum.splits)

lemma studentsHandler_datasets:
  "rosterMarkup p \<Longrightarrow>
   datasets (studentsHandler (Inr students) p) =
     Some (map (\<lambda>(index, student). dataset (studentRow index student))
             (enumerate 0 students))"
  by (auto simp: rosterMarkup_def datasets_def studentsHandler_def attachListeners_def
      fetchAllStudents_def populateTable_def Let_def case_prod_unfold comp_def)

lemma modalTexts_cong: "dataset row = dataset row' \<Longrightarrow> modalTexts row = modalTexts row'"
  by (simp add: modalTexts_def)

lemma detailView_keeps:
  "detailView (filterTable p) = detailView p" "detailView (hideModal p) = detailView p"
  "detailView (p\<lparr>searchInput := a\<rparr>) = detailView p"
  "detailView (p\<lparr>filterStrand := a\<rparr>) = detailView p"
  "detailView (p\<lparr>filterYear := a\<rparr>) = detailView p"
  "detailView (p\<lparr>filterSemester := a\<rparr>) = detailView p"
  by (simp_all add: detailView_def filterTable_keeps hideModal_keeps)

lemma detailState_step:
  assumes "detailLive p"
  shows "detailState (dispatch e p) =
     map_option (\<lambda>s. specDetailStep s (detailEvent p e)) (detailState p)"
proof -
  from assms obtain hidden where "modal p = Some hidden"
    by (auto simp: detailLive_def)
  with assms show ?thesis
    by (cases e; cases hidden)
      (auto simp: detailLive_def detailState_def detailEvent_def whenListening_def
        filterTable_keeps openStudentModal_keeps hideModal_keeps split: option.splits)
qed

lemma detailView_unchanged:
  assumes "detailLive p" and "detailEvent p e \<noteq> Select"
  shows "detailView (dispatch e p) = detailView p"
  using assms
  by (cases e)
    (auto simp: detailLive_def detailEvent_def whenListening_def detailView_keeps
      split: option.splits if_splits)

lemma detailView_select:
  assumes "detailLive p" and "closestRow p (Some i) = Some row"
  shows "detailView (dispatch (TableClick True (Some i)) p) = Some (modalTexts row)"
  using assms
  by (simp add: detailLive_def whenListening_def detailView_openStudentModal)

lemma closestRow_datasets:
  assumes "datasets p = Some (map (\<lambda>(index, student). dataset (studentRow index student))
             (enumerate 0 students))" and "i < length students"
  shows "\<exists>row. closestRow p (Some i) = Some row
          \<and> modalTexts row = project (students ! i)"
proof -
  from assms(1) obtain rows where rows: "tableBody p = Some rows"
    and ds: "map dataset rows =
      map (\<lambda>(index, student). dataset (studentRow index student)) (enumerate 0 students)"
    by (auto simp: datasets_def)
  from ds have len: "length rows = length students"
    by (metis length_map length_enumerate)
  from ds assms(2) len have "dataset (rows ! i) = dataset (studentRow i (students ! i))"
    by (metis (no_types, lifting) add_0 case_prod_conv length_enumerate nth_enumerate_eq
        nth_map)
  then have "modalTexts (rows ! i) = modalTexts (studentRow i (students ! i))"
    by (rule modalTexts_cong)
  then have "modalTexts (rows ! i) = project (students ! i)"
    by (simp add: project_def modalTexts_studentRow)
  with rows len assms(2) show ?thesis
    by (simp add: closestRow_def)
qed

text \<open>
  C7.  On a page whose markup has every element and a hidden modal, the detail view is
  Closed after initialisation, and in every state reached by user events it is Closed or
  Open and moves as the spec's machine does: a click on a row's view button selects
  (Closed or Open to Open, the five fields rewritten from that row, which for a fetched
  record is its projection), the close button and a click on the backdrop dismiss (to
  Closed), and every other event leaves both the state and the shown detail unchanged.
\<close>

theorem detail_state_machine:
  assumes "rosterMarkup p0" and "p = runEvents events (studentsHandler resp p0)"
  shows "detailState (studentsHandler resp p0) = Some Closed
    \<and> (detailState p = Some Closed \<or> detailState p = Some Open)
    \<and> detailState (dispatch e p) =
         map_option (\<lambda>s. specDetailStep s (detailEvent p e)) (detailState p)
    \<and> (detailEvent p e \<noteq> Select \<longrightarrow> detailView (dispatch e p) = detailView p)
    \<and> (\<forall>row. closestRow p (Some i) = Some row \<longrightarrow>
          detailState (dispatch (TableClick True (Some i)) p) = Some Open
          \<and> detailView (dispatch (TableClick True (Some i)) p) = Some (modalTexts row))
    \<and> (\<forall>students. resp = Inr students \<and> i < length students \<longrightarrow>
          detailView (dispatch (TableClick True (Some i)) p) = Some (project (students ! i)))
    \<and> detailState (dispatch CloseClick p) = Some Closed
    \<and> detailState (dispatch (ModalClick True) p) = Some Closed"
proof -
  have live: "detailLive p"
    unfolding assms(2) using assms(1)
    by (intro runEvents_detailLive studentsHandler_detailLive)
  then obtain hidden where hidden: "modal p = Some hidden"
    by (auto simp: detailLive_def)
  have initial: "detailState (studentsHandler resp p0) = Some Closed"
    using assms(1) by (simp add: detailState_def studentsHandler_modal rosterMarkup_def)
  have two: "detailState p = Some Closed \<or> detailState p = Some Open"
    using hidden by (simp add: detailState_def)
  have select: "detailState (dispatch (TableClick True (Some i)) p) = Some Open
      \<and> detailView (dispatch (TableClick True (Some i)) p) = Some (modalTexts row)"
    if "closestRow p (Some i) = Some row" for row
    using that detailView_select[OF live that]
      detailState_step[OF live, of "TableClick True (Some i)"] two
    by (auto simp: detailEvent_def simp del: dispatch.simps)
  have fetched: "detailView (dispatch (TableClick True (Some i)) p) =
      Some (project (students ! i))"
    if "resp = Inr students" and "i < length students" for students
  proof -
    have "datasets p = Some (map (\<lambda>(index, student). dataset (studentRow index student))
             (enumerate 0 students))"
      unfolding assms(2) that(1) runEvents_datasets
      by (rule studentsHandler_datasets[OF assms(1)])
    from closestRow_datasets[OF this that(2)] select show ?thesis
      by auto
  qed
  have dismiss: "detailState (dispatch CloseClick p) = Some Closed"
    "detailState (dispatch (ModalClick True) p) = Some Closed"
    using detailState_step[OF live, of CloseClick]
      detailState_step[OF live, of "ModalClick True"] two
    by (auto simp: detailEvent_def simp del: dispatch.simps)
  from initial two detailState_step[OF live, of e] detailView_unchanged[OF live, of e]
    select fetched dismiss
  show ?thesis by blast
qed

text \<open>
  The scenario of the spec: after the two records are fetched, selecting the first and then
  the second record shows the projection of the second; a dismissal closes the view.
\<close>

theorem detail_state_machine_witness:
  "rosterMarkup examplePage
   \<and> detailState (studentsHandler (Inr [doe, cruz]) examplePage) = Some Closed
   \<and> detailState (runEvents [TableClick True (Some 0), TableClick True (Some 1)]
        (studentsHandler (Inr [doe, cruz]) examplePage)) = Some Open
   \<and> detailView (runEvents [TableClick True (Some 0), TableClick True (Some 1)]
        (studentsHandler (Inr [doe, cruz]) examplePage)) = Some (project cruz)
   \<and> detailState (runEvents [TableClick True (Some 0), TableClick True (Some 1), CloseClick]
        (studentsHandler (Inr [doe, cruz]) examplePage)) = Some Closed"
proof -
  let ?start = "studentsHandler (Inr [doe, cruz]) examplePage"
  let ?one = "runEvents [TableClick True (Some 0)] ?start"
  let ?two = "runEvents [TableClick True (Some 0), TableClick True (Some 1)] ?start"
  let ?three =
    "runEvents [TableClick True (Some 0), TableClick True (Some 1), CloseClick] ?start"
  have markup: "rosterMarkup examplePage"
    by (simp add: rosterMarkup_def examplePage_def)
  note once = detail_state_machine[OF markup refl,
      where events = "[TableClick True (Some 0)]" and resp = "Inr [doe, cruz]"
        and e = "TableClick True (Some 1)" and i = 1]
  note twice = detail_state_machine[OF markup refl,
      where events = "[TableClick True (Some 0), TableClick True (Some 1)]"
        and resp = "Inr [doe, cruz]" and e = CloseClick and i = 0]
  have second: "?two = dispatch (TableClick True (Some 1)) ?one"
    using runEvents_snoc[of "[TableClick True (Some 0)]"] by simp
  have third: "?three = dispatch CloseClick ?two"
    using runEvents_snoc[of "[TableClick True (Some 0), TableClick True (Some 1)]"] by simp
  have "tableBody ?one = Some [studentRow 0 doe, studentRow 1 cruz]"
    by (simp add: runEvents_def studentsHandler_def examplePage_def fetchAllStudents_def
        populateTable_def attachListeners_def whenListening_def closestRow_def
        openStudentModal_def)
  then have row: "closestRow ?one (Some 1) = Some (studentRow 1 cruz)"
    by (simp add: closestRow_def)
  from once have "closestRow ?one (Some 1) = Some (studentRow 1 cruz) \<longrightarrow>
      detailState (dispatch (TableClick True (Some 1)) ?one) = Some Open"
    by blast
  with row have opened: "detailState ?two = Some Open"
    unfolding second by blast
  from once have "Inr [doe, cruz] = (Inr [doe, cruz] :: NewStudent list response)
      \<and> 1 < length [doe, cruz] \<longrightarrow>
      detailView (dispatch (TableClick True (Some 1)) ?one) = Some (project ([doe, cruz] ! 1))"
    by blast
  then have shown: "detailView ?two = Some (project cruz)"
    unfolding second by simp
  from once have initial: "detailState ?start = Some Closed"
    by blast
  from twice have "detailState (dispatch CloseClick ?two) = Some Closed"
    by blast
  then have closed: "detailState ?three = Some Closed"
    unfolding third .
  from markup initial opened shown closed show ?thesis
    by (intro conjI)
qed

section \<open>Failed queries\<close>

lemma updateElementText_fields:
  "elementText (updateElementText selector text d) other =
     (if other = selector then map_option (\<lambda>old. text) (elementText d selector)
      else elementText d other)"
  "recentTableBody (updateElementText selector text d) = recentTableBody d"
  by (simp_all add: updateElementText_def split: option.splits)

lemma updateCount_counted:
  "obj k = Some (Num n) \<Longrightarrow>
   updateCount selector obj k d = (None, updateElementText selector (natToString n) d)"
  by (simp add: updateCount_def)

lemma thenDo_normal: "f s = (None, s') \<Longrightarrow> thenDo f g s = g s'"
  by (simp add: thenDo_def)

lemma renderDashboard_aggregate:
  "\<exists>d'. renderDashboard (aggregate students) records d = (None, d')
     \<and> recentTableBody d' =
         map_option (\<lambda>old. map generateTableRow records) (recentTableBody d)
     \<and> (\<forall>(selector, k)\<in>set [(stemCount, ''STEM''), (abmCount, ''ABM''),
              (tvlCount, ''TVL-ICT''), (humssCount, ''HUMSS'')].
           elementText d' selector =
             map_option (\<lambda>old. natToString (length (filter (\<lambda>s. strand_opt s = Some k) students)))
               (elementText d selector))
     \<and> (\<forall>(selector, k)\<in>set [(pendingCount, ''Pending''), (enrolledCount, ''Enrolled''),
              (rejectedCount, ''Rejected'')].
           elementText d' selector =
             map_option
               (\<lambda>old. natToString
                  (length (filter (\<lambda>s. enrollment_status_opt s = Some k) students)))
               (elementText d selector))"
proof -
  have strand: "strandCounts (aggregate students) k =
      Some (Num (length (filter (\<lambda>s. strand_opt s = Some k) students)))"
    if "k \<in> set tracks" for k
    using that by (rule aggregate_strand)
  have status: "statusCounts (aggregate students) k =
      Some (Num (length (filter (\<lambda>s. enrollment_status_opt s = Some k) students)))"
    if "k \<in> set statuses" for k
    using that by (rule aggregate_status)
  have run: "renderDashboard (aggregate students) records d =
    renderRecent records
     (updateElementText rejectedCount
        (natToString (length (filter (\<lambda>s. enrollment_status_opt s = Some ''Rejected'') students)))
     (updateElementText enrolledCount
        (natToString (length (filter (\<lambda>s. enrollment_status_opt s = Some ''Enrolled'') students)))
     (updateElementText pendingCount
        (natToString (length (filter (\<lambda>s. enrollment_status_opt s = Some ''Pending'') students)))
     (updateElementText humssCount
        (natToString (length (filter (\<lambda>s. strand_opt s = Some ''HUMSS'') students)))
     (updateElementText tvlCount
        (natToString (length (filter (\<lambda>s. strand_opt s = Some ''TVL-ICT'') students)))
     (updateElementText abmCount
        (natToString (length (filter (\<lambda>s. strand_opt s = Some ''ABM'') students)))
     (updateElementText stemCount
        (natToString (length (filter (\<lambda>s. strand_opt s = Some ''STEM'') students)))
        d)))))))"
    unfolding renderDashboard_def
    by (simp add: thenDo_normal updateCount_counted strand status tracks_def statuses_def)
  show ?thesis
    unfolding run renderRecent_def
    by (simp add: updateElementText_fields stemCount_def abmCount_def tvlCount_def
        humssCount_def pendingCount_def enrolledCount_def rejectedCount_def)
qed

lemma dashboardHandler_failure:
  assumes "isl allResp \<or> isl recentSource"
  shows "elementText (dashboardHandler allResp recentSource d) = elementText d
    \<and> recentTableBody (dashboardHandler allResp recentSource d) = recentTableBody d
    \<and> last (dashConsole (dashboardHandler allResp recentSource d)) =
         ''Error loading dashboard data:''"
  using assms
  by (cases allResp; cases recentSource)
    (simp_all add: dashboardHandler_def dashboardTry_def fetchAndProcessAllStudents_def
      fetchRecentApplications_def)

lemma dashboardHandler_success:
  "\<exists>d'. dashboardHandler (Inr students) (Inr records) d = d'
     \<and> recentTableBody d' =
         map_option (\<lambda>old. map generateTableRow (selectRecent records 5)) (recentTableBody d)
     \<and> (\<forall>(selector, k)\<in>set [(stemCount, ''STEM''), (abmCount, ''ABM''),
              (tvlCount, ''TVL-ICT''), (humssCount, ''HUMSS'')].
           elementText d' selector =
             map_option (\<lambda>old. natToString (length (filter (\<lambda>s. strand_opt s = Some k) students)))
               (elementText d selector))
     \<and> (\<forall>(selector, k)\<in>set [(pendingCount, ''Pending''), (enrolledCount, ''Enrolled''),
              (rejectedCount, ''Rejected'')].
           elementText d' selector =
             map_option
               (\<lambda>old. natToString
                  (length (filter (\<lambda>s. enrollment_status_opt s = Some k) students)))
               (elementText d selector))"
proof -
  from renderDashboard_aggregate[of students "selectRecent records 5" d]
  obtain d' where "renderDashboard (aggregate students) (selectRecent records 5) d = (None, d')"
    and rest: "recentTableBody d' =
         map_option (\<lambda>old. map generateTableRow (selectRecent records 5)) (recentTableBody d)
     \<and> (\<forall>(selector, k)\<in>set [(stemCount, ''STEM''), (abmCount, ''ABM''),
              (tvlCount, ''TVL-ICT''), (humssCount, ''HUMSS'')].
           elementText d' selector =
             map_option (\<lambda>old. natToString (length (filter (\<lambda>s. strand_opt s = Some k) students)))
               (elementText d selector))
     \<and> (\<forall>(selector, k)\<in>set [(pendingCount, ''Pending''), (enrolledCount, ''Enrolled''),
              (rejectedCount, ''Rejected'')].
           elementText d' selector =
             map_option
               (\<lambda>old. natToString
                  (length (filter (\<lambda>s. enrollment_status_opt s = Some k) students)))
               (elementText d selector))"
    by blast
  then have "dashboardHandler (Inr students) (Inr records) d = d'"
    by (simp add: dashboardHandler_def dashboardTry_def fetchAndProcessAllStudents_def
        fetchRecentApplications_def)
  with rest show ?thesis by blast
qed

lemma studentsHandler_failure:
  assumes "tableBody p \<noteq> None" and "searchInput p \<noteq> None" and "filterStrand p \<noteq> None"
    and "filterYear p \<noteq> None" and "filterSemester p \<noteq> None"
  shows "tableBody (studentsHandler (Inl err) p) = Some [errorRow]
    \<and> queries (studentsHandler (Inl err) p) = queries p + 1
    \<and> set [SearchInputListener, FilterStrandListener, FilterYearListener,
            FilterSemesterListener, TableBodyClickListener]
        \<subseteq> set (listeners (studentsHandler (Inl err) p))"
  using assms
  by (simp add: studentsHandler_def fetchAllStudents_def attachListeners_def Let_def)

text \<open>
  C2 (amended).  On the students page a failed query replaces the roster by the placeholder
  row \<open>Error loading students.\<close>, after one query and without retry, and the listeners of
  the page are attached all the same.  On the dashboard the counting query and the recency
  query are run one after the other inside one guarded block, and the tallies and the
  recent rows are rendered only when both succeed: a failure of either leaves the counter
  texts and the recent table as they were, is logged, and ends the handler normally.  When
  both succeed every counter element shows its count and the table shows the selected rows.
\<close>

theorem fetch_failure_sections:
  "(tableBody p \<noteq> None \<and> searchInput p \<noteq> None \<and> filterStrand p \<noteq> None
      \<and> filterYear p \<noteq> None \<and> filterSemester p \<noteq> None \<longrightarrow>
      tableBody (studentsHandler (Inl err) p) = Some [errorRow]
      \<and> cells errorRow = [''Error loading students.'']
      \<and> queries (studentsHandler (Inl err) p) = queries p + 1
      \<and> set [SearchInputListener, FilterStrandListener, FilterYearListener,
              FilterSemesterListener, TableBodyClickListener]
          \<subseteq> set (listeners (studentsHandler (Inl err) p)))
   \<and> (isl allResp \<or> isl recentSource \<longrightarrow>
        elementText (dashboardHandler allResp recentSource d) = elementText d
        \<and> recentTableBody (dashboardHandler allResp recentSource d) = recentTableBody d
        \<and> last (dashConsole (dashboardHandler allResp recentSource d)) =
             ''Error loading dashboard data:'')
   \<and> recentTableBody (dashboardHandler (Inr students) (Inr records) d) =
         map_option (\<lambda>old. map generateTableRow (selectRecent records 5)) (recentTableBody d)
   \<and> (\<forall>(selector, k)\<in>set [(stemCount, ''STEM''), (abmCount, ''ABM''),
              (tvlCount, ''TVL-ICT''), (humssCount, ''HUMSS'')].
         elementText (dashboardHandler (Inr students) (Inr records) d) selector =
           map_option (\<lambda>old. natToString (length (filter (\<lambda>s. strand_opt s = Some k) students)))
             (elementText d selector))
   \<and> (\<forall>(selector, k)\<in>set [(pendingCount, ''Pending''), (enrolledCount, ''Enrolled''),
              (rejectedCount, ''Rejected'')].
         elementText (dashboardHandler (Inr students) (Inr records) d) selector =
           map_option
             (\<lambda>old. natToString
                (length (filter (\<lambda>s. enrollment_status_opt s = Some k) students)))
             (elementText d selector))"
proof -
  have roster: "tableBody p \<noteq> None \<and> searchInput p \<noteq> None \<and> filterStrand p \<noteq> None
      \<and> filterYear p \<noteq> None \<and> filterSemester p \<noteq> None \<longrightarrow>
      tableBody (studentsHandler (Inl err) p) = Some [errorRow]
      \<and> cells errorRow = [''Error loading students.'']
      \<and> queries (studentsHandler (Inl err) p) = queries p + 1
      \<and> set [SearchInputListener, FilterStrandListener, FilterYearListener,
              FilterSemesterListener, TableBodyClickListener]
          \<subseteq> set (listeners (studentsHandler (Inl err) p))"
    using studentsHandler_failure[of p err] by (simp add: errorRow_def)
  from roster dashboardHandler_failure[of allResp recentSource d]
    dashboardHandler_success[of students records d]
  show ?thesis by blast
qed

theorem fetch_failure_sections_witness:
  "tableBody (studentsHandler (Inl ''unavailable'') examplePage) = Some [errorRow]
   \<and> elementText (dashboardHandler (Inl ''unavailable'') (Inr [doe, cruz]) exampleDashboard) =
       elementText exampleDashboard
   \<and> elementText (dashboardHandler (Inr [stemPending]) (Inr [doe, cruz]) exampleDashboard)
       stemCount = Some ''1''"
proof -
  note inst = fetch_failure_sections[where p = examplePage and err = "''unavailable''"
      and allResp = "Inl ''unavailable''" and recentSource = "Inr [doe, cruz]"
      and d = exampleDashboard and students = "[stemPending]" and records = "[doe, cruz]"]
  have essentials: "tableBody examplePage \<noteq> None \<and> searchInput examplePage \<noteq> None
      \<and> filterStrand examplePage \<noteq> None \<and> filterYear examplePage \<noteq> None
      \<and> filterSemester examplePage \<noteq> None"
    by (simp add: examplePage_def)
  from inst essentials
  have "tableBody (studentsHandler (Inl ''unavailable'') examplePage) = Some [errorRow]"
    by blast
  moreover from inst
  have "elementText (dashboardHandler (Inl ''unavailable'') (Inr [doe, cruz]) exampleDashboard)
      = elementText exampleDashboard"
    by simp
  moreover from inst
  have "elementText (dashboardHandler (Inr [stemPending]) (Inr [doe, cruz]) exampleDashboard)
      stemCount = map_option (\<lambda>old. natToString
        (length (filter (\<lambda>s. strand_opt s = Some ''STEM'') [stemPending])))
        (elementText exampleDashboard stemCount)"
    by simp
  then have "elementText
      (dashboardHandler (Inr [stemPending]) (Inr [doe, cruz]) exampleDashboard) stemCount
      = Some ''1''"
    by (simp add: stemPending_def exampleDashboard_def natToString.simps digitChar_def)
  ultimately show ?thesis by (intro conjI)
qed

text \<open>
  As the claim states it, with each section failing on its own and showing a placeholder:
  on a dashboard whose counting query returns one STEM record while the recency query
  fails, the STEM counter still shows the dash it had, not the count 1 that it shows when
  both queries succeed, and the recent table is left with no row and no placeholder.
\<close>

theorem dashboard_failure_counterexample:
  "elementText (dashboardHandler (Inr [stemPending]) (Inl ''unavailable'') exampleDashboard)
     stemCount = Some ''-''
   \<and> elementText (dashboardHandler (Inr [stemPending]) (Inr []) exampleDashboard) stemCount
     = Some ''1''
   \<and> recentTableBody
       (dashboardHandler (Inr [stemPending]) (Inl ''unavailable'') exampleDashboard) = Some []"
proof -
  have failed: "dashboardHandler (Inr [stemPending]) (Inl ''unavailable'') exampleDashboard =
      exampleDashboard\<lparr>dashConsole :=
        [''Error fetching recent applications:'', ''Error loading dashboard data:'']\<rparr>"
    by (simp add: dashboardHandler_def dashboardTry_def fetchAndProcessAllStudents_def
        fetchRecentApplications_def exampleDashboard_def)
  have rendered:
    "elementText (dashboardHandler (Inr [stemPending]) (Inr []) exampleDashboard) stemCount
      = Some ''1''"
    using dashboardHandler_success[of "[stemPending]" "[]" exampleDashboard]
    by (simp add: stemPending_def exampleDashboard_def natToString.simps digitChar_def)
  from failed rendered show ?thesis
    by (simp add: exampleDashboard_def)
qed

end
